theory Spec2Isabelle
  imports Complex_Main
begin

section \<open>Python values and their text\<close>

text \<open>
  The module \<^verbatim>\<open>web_tool/Datasets.py\<close> runs once, when it is imported. An exception
  anywhere aborts the import, so every function that can raise returns a sum: \<open>Inl\<close>
  the exception, \<open>Inr\<close> the value.
\<close>

datatype error =
    ValueError string
  | IndexError
  | KeyError string
  | TypeError
  | DriverError string
  | LibraryError

text \<open>
  \<open>ValueError\<close> carries its message. \<open>DriverError\<close> is what \<^verbatim>\<open>fiona.open\<close> raises on a
  path it cannot read as a vector file. \<open>LibraryError\<close> stands for any exception raised
  inside \<^verbatim>\<open>utm\<close>, \<^verbatim>\<open>fiona.transform\<close> or \<^verbatim>\<open>shapely\<close>.
\<close>

text \<open>
  The values that occur in a declaration. A float is held as the text \<^verbatim>\<open>repr\<close> gives
  for it (\<^verbatim>\<open>38.11437\<close>); a dictionary is its items in insertion order, with string keys.
\<close>

datatype pyval =
    PyNone
  | PyBool bool
  | PyInt int
  | PyFloat string
  | PyStr string
  | PyList "pyval list"
  | PyDict "(string \<times> pyval) list"

definition digit_char :: "nat \<Rightarrow> char" where
  "digit_char n = ''0123456789abcdef'' ! n"

fun str_nat :: "nat \<Rightarrow> string" where
  "str_nat n = (if n < 10 then [digit_char n] else str_nat (n div 10) @ [digit_char (n mod 10)])"

declare str_nat.simps [simp del]

definition str_int :: "int \<Rightarrow> string" where
  "str_int i = (if i < 0 then CHR ''-'' # str_nat (nat (- i)) else str_nat (nat i))"

text \<open>
  \<^verbatim>\<open>repr\<close> of a string: single quotes, unless the string has a single quote and no
  double quote; the quote and the backslash are escaped, tab, newline and carriage return
  are written \<^verbatim>\<open>\t \n \r\<close>, and the other characters that are not printable as a
  two-digit hexadecimal escape. A \<open>char\<close> stands for the code point of its number, so the
  strings here are those of code points below 256.
\<close>

definition repr_char :: "char \<Rightarrow> char \<Rightarrow> string" where
  "repr_char quote c =
     (let n = (of_char c :: nat) in
      if c = quote \<or> c = CHR 0x5C then [CHR 0x5C, c]
      else if n = 9 then [CHR 0x5C, CHR ''t'']
      else if n = 10 then [CHR 0x5C, CHR ''n'']
      else if n = 13 then [CHR 0x5C, CHR ''r'']
      else if n < 32 \<or> n = 127 \<or> (128 \<le> n \<and> n \<le> 160) \<or> n = 173
        then [CHR 0x5C, CHR ''x'', digit_char (n div 16), digit_char (n mod 16)]
      else [c])"

definition repr_str :: "string \<Rightarrow> string" where
  "repr_str s =
     (let quote = (if CHR 0x27 \<in> set s \<and> CHR 0x22 \<notin> set s then CHR 0x22 else CHR 0x27)
      in quote # concat (map (repr_char quote) s) @ [quote])"

fun join :: "string \<Rightarrow> string list \<Rightarrow> string" where
  "join sep [] = []"
| "join sep [x] = x"
| "join sep (x # y # ys) = x @ sep @ join sep (y # ys)"

fun repr :: "pyval \<Rightarrow> string" where
  "repr PyNone = ''None''"
| "repr (PyBool b) = (if b then ''True'' else ''False'')"
| "repr (PyInt i) = str_int i"
| "repr (PyFloat s) = s"
| "repr (PyStr s) = repr_str s"
| "repr (PyList xs) = ''['' @ join '', '' (map repr xs) @ '']''"
| "repr (PyDict kvs) =
     ''{'' @ join '', '' (map (\<lambda>(k, v). repr_str k @ '': '' @ repr v) kvs) @ ''}''"

text \<open>\<^verbatim>\<open>str(v)\<close>: a string is itself, every other value is its \<^verbatim>\<open>repr\<close>.\<close>

definition str :: "pyval \<Rightarrow> string" where
  "str v = (case v of PyStr s \<Rightarrow> s | _ \<Rightarrow> repr v)"

text \<open>
  \<^verbatim>\<open>s.replace(old, new)\<close>: every occurrence of \<open>old\<close>, left to right and without
  overlap. With an empty \<open>old\<close> Python puts \<open>new\<close> before every character and at the end.
\<close>

fun replace :: "string \<Rightarrow> string \<Rightarrow> string \<Rightarrow> string" where
  "replace old new [] = (if old = [] then new else [])"
| "replace old new (c # cs) =
     (if old = [] then new @ c # replace old new cs
      else if take (length old) (c # cs) = old
        then new @ replace old new (drop (length old) (c # cs))
      else c # replace old new cs)"


section \<open>Sequencing calls that can raise\<close>

definition and_then :: "error + 'a \<Rightarrow> ('a \<Rightarrow> error + 'b) \<Rightarrow> error + 'b" where
  "and_then r f = (case r of Inl e \<Rightarrow> Inl e | Inr v \<Rightarrow> f v)"

text \<open>A call into a library: \<open>None\<close> when the library raised.\<close>

definition library_call :: "'a option \<Rightarrow> error + 'a" where
  "library_call r = (case r of None \<Rightarrow> Inl LibraryError | Some v \<Rightarrow> Inr v)"

section \<open>Boundary files\<close>

text \<open>
  What \<^verbatim>\<open>fiona\<close> hands to the loader: a geometry is a dictionary with a \<^verbatim>\<open>type\<close> and
  nested \<^verbatim>\<open>coordinates\<close>; a row holds a geometry, or \<^verbatim>\<open>None\<close> for a feature without
  one; a coordinate reference system is a dictionary.
\<close>

datatype coords = Num real | Seq "coords list"

record geometry =
  gtype :: string
  coordinates :: coords

record row =
  geometry :: "geometry option"

type_synonym crs = "(string \<times> pyval) list"

datatype disk_file = VectorFile crs "row list" | OtherFile

text \<open>
  The environment of the module: the content root \<^verbatim>\<open>web_tool.ROOT_DIR\<close>, the files on
  disk, and the library functions the loader calls (\<^verbatim>\<open>utm.latlon_to_zone_number\<close>,
  \<^verbatim>\<open>fiona.transform.transform_geom\<close>, \<^verbatim>\<open>shapely.geometry.shape\<close> and its
  \<^verbatim>\<open>area\<close>), which are parameters here. \<open>float_div\<close> is the division of two floats.
\<close>

record 'shape env =
  ROOT_DIR :: string
  files :: "string \<Rightarrow> disk_file option"
  latlon_to_zone_number :: "real \<Rightarrow> real \<Rightarrow> int option"
  transform_geom :: "crs \<Rightarrow> string \<Rightarrow> geometry \<Rightarrow> geometry option"
  shape :: "geometry \<Rightarrow> 'shape option"
  area :: "'shape \<Rightarrow> real"
  float_div :: "real \<Rightarrow> real \<Rightarrow> real"

text \<open>\<^verbatim>\<open>c[0]\<close>, \<^verbatim>\<open>lon, lat = c\<close> and the use of a coordinate as a number.\<close>

fun subscript0 :: "coords \<Rightarrow> error + coords" where
  "subscript0 (Num x) = Inl TypeError"
| "subscript0 (Seq []) = Inl IndexError"
| "subscript0 (Seq (c # cs)) = Inr c"

fun unpack2 :: "coords \<Rightarrow> error + coords \<times> coords" where
  "unpack2 (Num x) = Inl TypeError"
| "unpack2 (Seq []) = Inl (ValueError ''not enough values to unpack (expected 2, got 0)'')"
| "unpack2 (Seq [a]) = Inl (ValueError ''not enough values to unpack (expected 2, got 1)'')"
| "unpack2 (Seq [a, b]) = Inr (a, b)"
| "unpack2 (Seq (a # b # c # cs)) = Inl (ValueError ''too many values to unpack (expected 2)'')"

fun number :: "coords \<Rightarrow> error + real" where
  "number (Num x) = Inr x"
| "number (Seq cs) = Inl TypeError"

text \<open>Lines 278 to 283: the first vertex of the outer ring, or the refusal.\<close>

definition first_vertex :: "geometry \<Rightarrow> error + coords \<times> coords" where
  "first_vertex geom =
     (if gtype geom = ''Polygon'' then
        and_then (subscript0 (coordinates geom)) (\<lambda>ring.
        and_then (subscript0 ring) unpack2)
      else if gtype geom = ''MultiPolygon'' then
        and_then (subscript0 (coordinates geom)) (\<lambda>polygon.
        and_then (subscript0 polygon) (\<lambda>ring.
        and_then (subscript0 ring) unpack2))
      else Inl (ValueError ''Polygons and MultiPolygons only''))"

definition utm_crs :: "int \<Rightarrow> real \<Rightarrow> string" where
  "utm_crs zone_number lat =
     (let hemisphere = (if lat > 0 then ''+north'' else ''+south'')
      in ''+proj=utm +zone='' @ str_int zone_number @ '' '' @ hemisphere @
         '' +datum=WGS84 +units=m +no_defs'')"

text \<open>
  The body of the loop over the rows (lines 277 to 291): the shape and the area. A row
  without a geometry raises at the subscript of line 278. The longitude and the latitude
  are numbers in what \<^verbatim>\<open>fiona\<close> reads; were one of them a sequence, \<^verbatim>\<open>utm\<close> or the
  comparison of line 286 would raise, which is the \<open>TypeError\<close> of \<open>number\<close> here.
\<close>

definition load_row :: "'shape env \<Rightarrow> crs \<Rightarrow> row \<Rightarrow> error + 'shape \<times> real" where
  "load_row E src_crs r =
     (case geometry r of
        None \<Rightarrow> Inl TypeError
      | Some geom \<Rightarrow>
          and_then (first_vertex geom) (\<lambda>(lon, lat).
          and_then (number lat) (\<lambda>lat.
          and_then (number lon) (\<lambda>lon.
          and_then (library_call (latlon_to_zone_number E lat lon)) (\<lambda>zone_number.
          let dest_crs = utm_crs zone_number lat in
          and_then (library_call (transform_geom E src_crs dest_crs geom)) (\<lambda>projected_geom.
          and_then (library_call (shape E projected_geom)) (\<lambda>projected_shape.
          let a = float_div E (area E projected_shape) 1000000 in
          and_then (library_call (shape E geom)) (\<lambda>s. Inr (s, a)))))))))"

text \<open>The loop: \<^verbatim>\<open>areas.append(area)\<close>, \<^verbatim>\<open>shapes.append(shape)\<close>.\<close>

fun load_rows ::
  "'shape env \<Rightarrow> crs \<Rightarrow> row list \<Rightarrow> 'shape list \<Rightarrow> real list \<Rightarrow> error + 'shape list \<times> real list"
where
  "load_rows E src_crs [] shapes areas = Inr (shapes, areas)"
| "load_rows E src_crs (r # rs) shapes areas =
     (case load_row E src_crs r of
        Inl e \<Rightarrow> Inl e
      | Inr (s, a) \<Rightarrow> load_rows E src_crs rs (shapes @ [s]) (areas @ [a]))"

definition load_geojson_as_list ::
  "'shape env \<Rightarrow> string \<Rightarrow> error + 'shape list \<times> real list \<times> crs"
where
  "load_geojson_as_list E fn =
     (case files E fn of
        None \<Rightarrow> Inl (DriverError fn)
      | Some OtherFile \<Rightarrow> Inl (DriverError fn)
      | Some (VectorFile src_crs rows) \<Rightarrow>
          (case load_rows E src_crs rows [] [] of
             Inl e \<Rightarrow> Inl e
           | Inr (shapes, areas) \<Rightarrow> Inr (shapes, areas, src_crs)))"


section \<open>Dataset declarations\<close>

text \<open>
  A shape layer is a dictionary of \<^verbatim>\<open>name\<close>, \<^verbatim>\<open>shapes_fn\<close> and \<^verbatim>\<open>zone_name_key\<close> (a
  string or \<^verbatim>\<open>None\<close>). Loading adds the keys \<^verbatim>\<open>geoms\<close>, \<^verbatim>\<open>areas\<close> and \<^verbatim>\<open>crs\<close> to it;
  until then they are absent, which is \<open>None\<close> here.
\<close>

record 'shape shape_layer =
  layer_name :: string
  shapes_fn :: string
  zone_name_key :: "string option"
  geoms :: "'shape list option"
  areas :: "real list option"
  crs :: "pyval option"

record tile_layer =
  url :: string
  args :: "(string \<times> pyval) list"

record location =
  center :: pyval
  initialZoom :: pyval
  bounds :: pyval

datatype DatasetTypes = CUSTOM | USA_LAYER | BASEMAP

text \<open>The value under \<^verbatim>\<open>data_layer_type\<close>: a member of the enumeration, or anything else.\<close>

datatype layer_type = Member DatasetTypes | Other pyval

text \<open>
  \<^verbatim>\<open>data_fn\<close> and \<^verbatim>\<open>data_url\<close> are keys that a declaration may lack (\<open>None\<close>);
  \<^verbatim>\<open>shape_layers\<close> is a list or \<^verbatim>\<open>None\<close>.
\<close>

record 'shape dataset =
  name :: string
  imagery_metadata :: string
  data_layer_type :: layer_type
  data_fn :: "string option"
  data_url :: "string option"
  data_padding :: real
  leafletTileLayer :: tile_layer
  shape_layers :: "'shape shape_layer list option"
  location :: location

section \<open>The client configuration string\<close>

record outputs =
  out_center :: pyval
  out_initialZoom :: pyval
  out_name :: string
  out_imageMetadata :: string
  out_url :: string
  out_kwargs :: string
  out_shapes :: string

definition shape_triple :: "'shape shape_layer \<Rightarrow> pyval" where
  "shape_triple shape_layer =
     PyDict [(''name'', PyStr (layer_name shape_layer)),
             (''shapes_fn'', PyStr (shapes_fn shape_layer)),
             (''zone_name_key'',
                (case zone_name_key shape_layer of None \<Rightarrow> PyNone | Some k \<Rightarrow> PyStr k))]"

definition javascript_outputs :: "'shape dataset \<Rightarrow> outputs" where
  "javascript_outputs dataset =
     \<lparr>out_center = center (location dataset),
      out_initialZoom = initialZoom (location dataset),
      out_name = name dataset,
      out_imageMetadata = imagery_metadata dataset,
      out_url = url (leafletTileLayer dataset),
      out_kwargs = replace ''True'' ''true'' (str (PyDict (args (leafletTileLayer dataset)))),
      out_shapes =
        (case shape_layers dataset of
           Some layers \<Rightarrow> replace ''None'' ''null'' (str (PyList (map shape_triple layers)))
         | None \<Rightarrow> ''null'')\<rparr>"

definition format_outputs :: "outputs \<Rightarrow> string" where
  "format_outputs out =
     ''{\<newline>        \"location\": ['' @ str (out_center out) @ '', '' @ str (out_initialZoom out) @
     '', \"'' @ out_name out @ ''\", \"'' @ out_imageMetadata out @
     ''\"],\<newline>        \"tileObject\": L.tileLayer(\"'' @ out_url out @ ''\", '' @ out_kwargs out @
     ''),\<newline>        \"shapes\": '' @ out_shapes out @ ''\<newline>    }''"

definition get_javascript_string_from_dataset :: "'shape dataset \<Rightarrow> string" where
  "get_javascript_string_from_dataset dataset = format_outputs (javascript_outputs dataset)"

section \<open>Building the registry\<close>

text \<open>
  The three loaders of the module \<^verbatim>\<open>DataLoader\<close> are kept as the constructor and its
  arguments. A registry entry is the dictionary stored under the dataset's key.
\<close>

datatype 'shape data_loader =
    DataLoaderCustom string "string \<Rightarrow> 'shape shape_layer option" real
  | DataLoaderUSALayer "string \<Rightarrow> 'shape shape_layer option" real
  | DataLoaderBasemap string real

record 'shape entry =
  data_loader :: "'shape data_loader"
  entry_shape_layers :: "string \<Rightarrow> 'shape shape_layer option"
  javascript_string :: string

text \<open>The registry \<^verbatim>\<open>DATASETS\<close> and what has been printed, line by line.\<close>

record 'shape state =
  DATASETS :: "string \<Rightarrow> 'shape entry option"
  printed :: "string list"

text \<open>\<^verbatim>\<open>os.path.join\<close> of two POSIX paths, and \<^verbatim>\<open>os.path.exists\<close>.\<close>

definition os_path_join :: "string \<Rightarrow> string \<Rightarrow> string" where
  "os_path_join a b =
     (if take 1 b = ''/'' then b
      else if a = [] \<or> last a = CHR ''/'' then a @ b
      else a @ ''/'' @ b)"

definition os_path_exists :: "'shape env \<Rightarrow> string \<Rightarrow> bool" where
  "os_path_exists E fn = (files E fn \<noteq> None)"

definition warning :: "string \<Rightarrow> string \<Rightarrow> string" where
  "warning fn dataset_key =
     ''WARNING: '' @ fn @ '' doesn't exist, this server will not be able to serve the '' @
     [CHR 0x27] @ dataset_key @ [CHR 0x27] @ '' dataset''"

text \<open>
  An exception ends the import where it is raised, with what was printed and what was
  changed in place until then. So the loops below return what they reached together with
  the exception, if there was one: \<open>None\<close> is a normal end.
\<close>

text \<open>
  Lines 329 to 339, the loop over the shape layers. It returns the layers as it leaves
  them, the dictionary \<^verbatim>\<open>shape_layers\<close>, the flag \<^verbatim>\<open>loaded\<close> and the printed lines.
  Lines 333 and 334 have set \<^verbatim>\<open>geoms\<close> and \<^verbatim>\<open>areas\<close> when line 335 looks for \<^verbatim>\<open>init\<close>.
\<close>

fun load_shape_layers ::
  "'shape env \<Rightarrow> string \<Rightarrow> 'shape shape_layer list \<Rightarrow>
   (string \<Rightarrow> 'shape shape_layer option) \<Rightarrow> bool \<Rightarrow> string list \<Rightarrow>
   error option \<times> 'shape shape_layer list \<times> (string \<Rightarrow> 'shape shape_layer option) \<times>
   bool \<times> string list"
where
  "load_shape_layers E dataset_key [] by_name loaded out = (None, [], by_name, loaded, out)"
| "load_shape_layers E dataset_key (shape_layer # rest) by_name loaded out =
     (let fn = os_path_join (ROOT_DIR E) (shapes_fn shape_layer) in
      if os_path_exists E fn then
        (case load_geojson_as_list E fn of
           Inl e \<Rightarrow> (Some e, shape_layer # rest, by_name, loaded, out)
         | Inr (shapes, areas', crs') \<Rightarrow>
             let shape_layer1 = shape_layer\<lparr>geoms := Some shapes, areas := Some areas'\<rparr> in
             (case map_of crs' ''init'' of
                None \<Rightarrow> (Some (KeyError ''init''), shape_layer1 # rest, by_name, loaded, out)
              | Some init \<Rightarrow>
                  let shape_layer2 = shape_layer1\<lparr>crs := Some init\<rparr> in
                  (case load_shape_layers E dataset_key rest
                          (by_name(layer_name shape_layer \<mapsto> shape_layer2)) loaded out of
                     (err, rest', by_name', loaded', out') \<Rightarrow>
                       (err, shape_layer2 # rest', by_name', loaded', out'))))
      else
        (case load_shape_layers E dataset_key rest by_name False
                (out @ [warning fn dataset_key]) of
           (err, rest', by_name', loaded', out') \<Rightarrow>
             (err, shape_layer # rest', by_name', loaded', out')))"

text \<open>
  Lines 324 to 339: \<^verbatim>\<open>loaded = True\<close>, \<^verbatim>\<open>shape_layers = {}\<close>, and the loop when the
  declaration's \<^verbatim>\<open>shape_layers\<close> is not \<^verbatim>\<open>None\<close>.
\<close>

definition load_shapes_first ::
  "'shape env \<Rightarrow> string \<Rightarrow> 'shape dataset \<Rightarrow> string list \<Rightarrow>
   error option \<times> 'shape shape_layer list option \<times> (string \<Rightarrow> 'shape shape_layer option) \<times>
   bool \<times> string list"
where
  "load_shapes_first E dataset_key dataset out =
     (case shape_layers dataset of
        None \<Rightarrow> (None, None, Map.empty, True, out)
      | Some layers \<Rightarrow>
          (case load_shape_layers E dataset_key layers Map.empty True out of
             (err, layers', by_name, loaded, out') \<Rightarrow> (err, Some layers', by_name, loaded, out')))"

text \<open>Lines 343 to 347: the raster under \<^verbatim>\<open>data_fn\<close>, when the declaration has the key.\<close>

definition check_data_fn ::
  "'shape env \<Rightarrow> string \<Rightarrow> 'shape dataset \<Rightarrow> bool \<Rightarrow> string list \<Rightarrow> bool \<times> string list"
where
  "check_data_fn E dataset_key dataset loaded out =
     (case data_fn dataset of
        None \<Rightarrow> (loaded, out)
      | Some f \<Rightarrow>
          let fn = os_path_join (ROOT_DIR E) f in
          if \<not> os_path_exists E fn then (False, out @ [warning fn dataset_key])
          else (loaded, out))"

text \<open>Lines 351 to 358: the loader for the declared kind.\<close>

definition make_data_loader ::
  "'shape dataset \<Rightarrow> (string \<Rightarrow> 'shape shape_layer option) \<Rightarrow> error + 'shape data_loader"
where
  "make_data_loader dataset by_name =
     (case data_layer_type dataset of
        Member CUSTOM \<Rightarrow>
          (case data_fn dataset of
             None \<Rightarrow> Inl (KeyError ''data_fn'')
           | Some f \<Rightarrow> Inr (DataLoaderCustom f by_name (data_padding dataset)))
      | Member USA_LAYER \<Rightarrow> Inr (DataLoaderUSALayer by_name (data_padding dataset))
      | Member BASEMAP \<Rightarrow>
          (case data_url dataset of
             None \<Rightarrow> Inl (KeyError ''data_url'')
           | Some u \<Rightarrow> Inr (DataLoaderBasemap u (data_padding dataset)))
      | Other v \<Rightarrow> Inl (ValueError ''DatasetType not recognized''))"

text \<open>
  The body of the loop over the declarations (lines 322 to 366). It returns the exception
  if one was raised, the declaration as the body leaves it (its shape layers are changed
  in place) and the state.
\<close>

definition load_dataset ::
  "'shape env \<Rightarrow> string \<Rightarrow> 'shape dataset \<Rightarrow> 'shape state \<Rightarrow>
   error option \<times> 'shape dataset \<times> 'shape state"
where
  "load_dataset E dataset_key dataset st =
     (case load_shapes_first E dataset_key dataset (printed st) of
        (Some e, layers', by_name, loaded, out) \<Rightarrow>
          (Some e, dataset\<lparr>shape_layers := layers'\<rparr>, st\<lparr>printed := out\<rparr>)
      | (None, layers', by_name, loaded, out) \<Rightarrow>
          let dataset' = dataset\<lparr>shape_layers := layers'\<rparr>;
              (loaded', out') = check_data_fn E dataset_key dataset' loaded out
          in if loaded' then
               (case make_data_loader dataset' by_name of
                  Inl e \<Rightarrow> (Some e, dataset', st\<lparr>printed := out'\<rparr>)
                | Inr loader \<Rightarrow>
                    (None, dataset',
                     st\<lparr>DATASETS := (DATASETS st)(dataset_key \<mapsto>
                           \<lparr>data_loader = loader,
                            entry_shape_layers = by_name,
                            javascript_string = get_javascript_string_from_dataset dataset'\<rparr>),
                        printed := out'\<rparr>))
             else (None, dataset', st\<lparr>printed := out'\<rparr>))"

text \<open>
  The loop over \<^verbatim>\<open>DATASET_DEFINITIONS.items()\<close>: an exception leaves the declarations
  after the one that raised as they were. The module runs it from the empty registry.
\<close>

fun load_datasets ::
  "'shape env \<Rightarrow> (string \<times> 'shape dataset) list \<Rightarrow> 'shape state \<Rightarrow>
   error option \<times> (string \<times> 'shape dataset) list \<times> 'shape state"
where
  "load_datasets E [] st = (None, [], st)"
| "load_datasets E ((dataset_key, dataset) # rest) st =
     (case load_dataset E dataset_key dataset st of
        (Some e, dataset', st') \<Rightarrow> (Some e, (dataset_key, dataset') # rest, st')
      | (None, dataset', st') \<Rightarrow>
          (case load_datasets E rest st' of
             (err, rest', st'') \<Rightarrow> (err, (dataset_key, dataset') # rest', st'')))"



section \<open>The files a declaration refers to\<close>

text \<open>
  Names for what the claims speak of: the path the loop checks for a shape layer, the
  paths a declaration refers to in the order the loop checks them, those of them that do
  not exist, and a boundary file that the loop can take in (it loads, and its reference
  system has the key \<^verbatim>\<open>init\<close> that line 335 reads).
\<close>

definition layer_file :: "'shape env \<Rightarrow> 'shape shape_layer \<Rightarrow> string" where
  "layer_file E shape_layer = os_path_join (ROOT_DIR E) (shapes_fn shape_layer)"

definition referenced_files :: "'shape env \<Rightarrow> 'shape dataset \<Rightarrow> string list" where
  "referenced_files E dataset =
     (case shape_layers dataset of None \<Rightarrow> [] | Some layers \<Rightarrow> map (layer_file E) layers) @
     (case data_fn dataset of None \<Rightarrow> [] | Some f \<Rightarrow> [os_path_join (ROOT_DIR E) f])"

definition missing_files :: "'shape env \<Rightarrow> 'shape dataset \<Rightarrow> string list" where
  "missing_files E dataset = filter (\<lambda>fn. \<not> os_path_exists E fn) (referenced_files E dataset)"

definition loads :: "'shape env \<Rightarrow> string \<Rightarrow> bool" where
  "loads E fn =
     (case load_geojson_as_list E fn of
        Inl e \<Rightarrow> False
      | Inr (shs, ars, c) \<Rightarrow> map_of c ''init'' \<noteq> None)"

definition present_layers_load :: "'shape env \<Rightarrow> 'shape dataset \<Rightarrow> bool" where
  "present_layers_load E dataset =
     (case shape_layers dataset of
        None \<Rightarrow> True
      | Some layers \<Rightarrow>
          list_all (\<lambda>l. os_path_exists E (layer_file E l) \<longrightarrow> loads E (layer_file E l)) layers)"

text \<open>
  What lines 331 to 336 make of a shape layer: with its file on disk, the layer with the
  three keys set from what the loader returned; without it, the layer as it was.
\<close>

definition loaded_in_place ::
  "'shape env \<Rightarrow> 'shape shape_layer \<Rightarrow> 'shape shape_layer \<Rightarrow> bool"
where
  "loaded_in_place E l l' =
     (if os_path_exists E (layer_file E l) then
        (case load_geojson_as_list E (layer_file E l) of
           Inl e \<Rightarrow> False
         | Inr (shs, ars, c) \<Rightarrow>
             (case map_of c ''init'' of
                None \<Rightarrow> False
              | Some init \<Rightarrow> l' = l\<lparr>geoms := Some shs, areas := Some ars, crs := Some init\<rparr>))
      else l' = l)"

section \<open>Example inputs\<close>

text \<open>
  Two declarations of the module's table, and variations of the first one; a content
  root with the boundary files of \<^verbatim>\<open>yangon_sentinel\<close> except the third; stand-ins for
  the libraries, where a shape is its geometry and the reprojected geometry is marked by
  empty coordinates.
\<close>

definition esri_world_imagery :: "geometry dataset" where
  "esri_world_imagery =
     \<lparr>name = ''ESRI World Imagery'',
      imagery_metadata = ''ESRI World Imagery'',
      data_layer_type = Member BASEMAP,
      data_fn = None,
      data_url = Some ''https://server.arcgisonline.com/ArcGIS/rest/services/World_Imagery/MapServer/tile/{z}/{y}/{x}'',
      data_padding = 0.0005,
      leafletTileLayer =
        \<lparr>url = ''https://server.arcgisonline.com/ArcGIS/rest/services/World_Imagery/MapServer/tile/{z}/{y}/{x}'',
         args = [(''minZoom'', PyInt 4), (''maxZoom'', PyInt 20),
                 (''attribution'', PyStr ''Tiles &copy; Esri'')]\<rparr>,
      shape_layers = None,
      location = \<lparr>center = PyList [PyInt 38, PyInt (- 88)], initialZoom = PyInt 4, bounds = PyNone\<rparr>\<rparr>"

definition declared_layer :: "string \<Rightarrow> string \<Rightarrow> string option \<Rightarrow> geometry shape_layer" where
  "declared_layer n fn k =
     \<lparr>layer_name = n, shapes_fn = fn, zone_name_key = k, geoms = None, areas = None, crs = None\<rparr>"

definition yangon_sentinel :: "geometry dataset" where
  "yangon_sentinel =
     \<lparr>name = ''Yangon, Myanmar'',
      imagery_metadata = ''Sentinel Imagery'',
      data_layer_type = Member CUSTOM,
      data_fn = Some ''tiles/yangon.tif'',
      data_url = None,
      data_padding = 1100,
      leafletTileLayer =
        \<lparr>url = ''tiles/yangon/{z}/{x}/{y}.png'',
         args = [(''tms'', PyBool True), (''minZoom'', PyInt 10), (''maxNativeZoom'', PyInt 16),
                 (''maxZoom'', PyInt 20), (''attribution'', PyStr ''Georeferenced Image'')]\<rparr>,
      shape_layers = Some
        [declared_layer ''States'' ''shapes/yangon_sentinel_admin_1_clipped.geojson'' (Some ''ST''),
         declared_layer ''Districts'' ''shapes/yangon_sentinel_admin_2_clipped.geojson'' (Some ''DT''),
         declared_layer ''Townships'' ''shapes/yangon_sentinel_admin_3_clipped.geojson'' (Some ''TS''),
         declared_layer ''Wards'' ''shapes/yangon_sentinel_admin_4_clipped.geojson'' (Some ''Ward'')],
      location =
        \<lparr>center = PyList [PyFloat ''16.66177'', PyFloat ''96.326427''], initialZoom = PyInt 10,
         bounds = PyNone\<rparr>\<rparr>"

definition false_and_none_args :: "geometry dataset" where
  "false_and_none_args = esri_world_imagery
     \<lparr>leafletTileLayer :=
        \<lparr>url = ''tiles/{z}/{x}/{y}.png'',
         args = [(''tms'', PyBool False), (''bounds'', PyNone), (''detectRetina'', PyBool True)]\<rparr>\<rparr>"

definition empty_layers :: "geometry dataset" where
  "empty_layers = esri_world_imagery\<lparr>shape_layers := Some []\<rparr>"



definition epsg4326 :: crs where
  "epsg4326 = [(''init'', PyStr ''epsg:4326'')]"

definition polygon :: geometry where
  "polygon =
     \<lparr>gtype = ''Polygon'',
      coordinates = Seq [Seq [Seq [Num (- 75), Num 42], Seq [Num (- 74), Num 42],
                              Seq [Num (- 74), Num 43], Seq [Num (- 75), Num 42]]]\<rparr>"

definition multipolygon :: geometry where
  "multipolygon =
     \<lparr>gtype = ''MultiPolygon'',
      coordinates = Seq [Seq [Seq [Seq [Num 96, Num (- 16)], Seq [Num 97, Num (- 16)],
                                   Seq [Num 97, Num (- 15)], Seq [Num 96, Num (- 16)]]]]\<rparr>"

definition empty_polygon :: geometry where
  "empty_polygon = \<lparr>gtype = ''Polygon'', coordinates = Seq []\<rparr>"

definition point :: geometry where
  "point = \<lparr>gtype = ''Point'', coordinates = Seq [Num 96, Num 16]\<rparr>"

definition polygon_row :: row where
  "polygon_row = \<lparr>geometry = Some polygon\<rparr>"

definition multipolygon_row :: row where
  "multipolygon_row = \<lparr>geometry = Some multipolygon\<rparr>"

definition empty_polygon_row :: row where
  "empty_polygon_row = \<lparr>geometry = Some empty_polygon\<rparr>"

definition point_row :: row where
  "point_row = \<lparr>geometry = Some point\<rparr>"

definition example_env :: "geometry env" where
  "example_env =
     \<lparr>ROOT_DIR = ''/srv/web_tool'',
      files = map_of
        [(''/srv/web_tool/shapes/yangon_sentinel_admin_1_clipped.geojson'',
            VectorFile epsg4326 [polygon_row, multipolygon_row]),
         (''/srv/web_tool/shapes/yangon_sentinel_admin_2_clipped.geojson'',
            VectorFile epsg4326 [multipolygon_row]),
         (''/srv/web_tool/shapes/yangon_sentinel_admin_4_clipped.geojson'',
            VectorFile epsg4326 []),
         (''/srv/web_tool/tiles/yangon.tif'', OtherFile),
         (''/srv/web_tool/shapes/empty_then_point.geojson'',
            VectorFile epsg4326 [empty_polygon_row, point_row]),
         (''/srv/web_tool/shapes/polygon_then_point.geojson'',
            VectorFile epsg4326 [polygon_row, point_row])],
      latlon_to_zone_number = (\<lambda>lat lon. Some (\<lfloor>(lon + 180) / 6\<rfloor> + 1)),
      transform_geom = (\<lambda>src dest geom. Some (geom\<lparr>coordinates := Seq []\<rparr>)),
      shape = Some,
      area = (\<lambda>s. if coordinates s = Seq [] then 2500000 else 1),
      float_div = (/)\<rparr>"




definition broken_then_states :: "geometry dataset" where
  "broken_then_states = esri_world_imagery
     \<lparr>shape_layers := Some
        [declared_layer ''Broken'' ''shapes/polygon_then_point.geojson'' None,
         declared_layer ''States'' ''shapes/yangon_sentinel_admin_1_clipped.geojson'' (Some ''ST'')]\<rparr>"



definition empty_registry :: "geometry state" where
  "empty_registry = \<lparr>DATASETS = Map.empty, printed = []\<rparr>"

section \<open>Facts about the sequencing and the loader\<close>


lemma and_then_Inl_iff:
  "and_then r f = Inl e \<longleftrightarrow> r = Inl e \<or> (\<exists>v. r = Inr v \<and> f v = Inl e)"
  by (cases r) (simp_all add: and_then_def)

lemma and_then_Inl [simp]: "and_then (Inl e) f = Inl e"
  by (simp add: and_then_def)

lemma and_then_Inr [simp]: "and_then (Inr v) f = f v"
  by (simp add: and_then_def)


lemma library_call_Inl_iff: "library_call r = Inl e \<longleftrightarrow> r = None \<and> e = LibraryError"
  by (cases r) (auto simp add: library_call_def)



lemma load_rows_Inr:
  "load_rows E src_crs rows shs ars = Inr (shs', ars') \<Longrightarrow>
   \<exists>ss as. shs' = shs @ ss \<and> ars' = ars @ as \<and>
           length ss = length rows \<and> length as = length rows \<and>
           (\<forall>i<length rows. load_row E src_crs (rows ! i) = Inr (ss ! i, as ! i))"
proof (induction rows arbitrary: shs ars)
  case Nil
  then show ?case by simp
next
  case (Cons r rs)
  from Cons.prems obtain s a where r: "load_row E src_crs r = Inr (s, a)"
    and rest: "load_rows E src_crs rs (shs @ [s]) (ars @ [a]) = Inr (shs', ars')"
    by (auto split: sum.splits)
  from Cons.IH [OF rest] obtain ss as where
    ih: "shs' = (shs @ [s]) @ ss" "ars' = (ars @ [a]) @ as"
        "length ss = length rs" "length as = length rs"
        "\<forall>i<length rs. load_row E src_crs (rs ! i) = Inr (ss ! i, as ! i)"
    by blast
  have "\<forall>i<length (r # rs). load_row E src_crs ((r # rs) ! i) = Inr ((s # ss) ! i, (a # as) ! i)"
    using r ih(5) by (auto simp add: nth_Cons split: nat.splits)
  with ih show ?case
    by (intro exI [of _ "s # ss"] exI [of _ "a # as"]) simp
qed

lemma load_geojson_as_list_Inr:
  assumes "load_geojson_as_list E fn = Inr (shs, ars, c)"
  shows "\<exists>rows. files E fn = Some (VectorFile c rows) \<and>
           length shs = length rows \<and> length ars = length rows \<and>
           (\<forall>i<length rows. load_row E c (rows ! i) = Inr (shs ! i, ars ! i))"
proof -
  from assms obtain rows where f: "files E fn = Some (VectorFile c rows)"
    and l: "load_rows E c rows [] [] = Inr (shs, ars)"
    by (auto simp add: load_geojson_as_list_def split: option.splits disk_file.splits sum.splits)
  from load_rows_Inr [OF l] f show ?thesis by auto
qed

section \<open>Claims about the shape loader\<close>

text \<open>
  Claim C4. Whenever \<open>load_geojson_as_list\<close> returns, for a boundary file, the two
  sequences have the same length, which is the number of rows of the file, and at every
  index the shape and the area are what the loop body computed for the row at that index.
\<close>

theorem loaded_sequences_correspond:
  assumes "load_geojson_as_list E fn = Inr (shs, ars, c)"
  shows "length shs = length ars \<and>
         (\<exists>rows. files E fn = Some (VectorFile c rows) \<and> length rows = length shs \<and>
            (\<forall>i<length rows. load_row E c (rows ! i) = Inr (shs ! i, ars ! i)))"
  using load_geojson_as_list_Inr [OF assms] by auto

theorem loaded_sequences_correspond_witness:
  "load_geojson_as_list example_env
     ''/srv/web_tool/shapes/yangon_sentinel_admin_1_clipped.geojson'' =
     Inr ([polygon, multipolygon], [5 / 2, 5 / 2], epsg4326) \<and>
   length [polygon, multipolygon] = length [5 / 2, 5 / 2 :: real] \<and>
   load_row example_env epsg4326 polygon_row = Inr (polygon, 5 / 2) \<and>
   load_row example_env epsg4326 multipolygon_row = Inr (multipolygon, 5 / 2)"
proof -
  have h: "load_geojson_as_list example_env
     ''/srv/web_tool/shapes/yangon_sentinel_admin_1_clipped.geojson'' =
     Inr ([polygon, multipolygon], [5 / 2, 5 / 2], epsg4326)"
    by code_simp
  have f: "files example_env ''/srv/web_tool/shapes/yangon_sentinel_admin_1_clipped.geojson'' =
     Some (VectorFile epsg4326 [polygon_row, multipolygon_row])"
    by (simp add: example_env_def)
  from loaded_sequences_correspond [OF h] f
  have every: "\<And>i. i < 2 \<Longrightarrow>
      load_row example_env epsg4326 ([polygon_row, multipolygon_row] ! i) =
        Inr ([polygon, multipolygon] ! i, [5 / 2, 5 / 2] ! i)"
    by auto
  from every [of 0] every [of 1] h show ?thesis by simp
qed



lemma load_row_unsupported:
  assumes "geometry r = Some geom" and "gtype geom \<noteq> ''Polygon''"
    and "gtype geom \<noteq> ''MultiPolygon''"
  shows "load_row E c r = Inl (ValueError ''Polygons and MultiPolygons only'')"
  using assms by (simp add: load_row_def first_vertex_def)

lemma load_rows_first_failure:
  assumes "load_row E c r = Inl e" and "\<forall>p\<in>set before. \<exists>v. load_row E c p = Inr v"
  shows "load_rows E c (before @ r # after) shs ars = Inl e"
  using assms(2)
proof (induction before arbitrary: shs ars)
  case Nil
  show ?case using assms(1) by simp
next
  case (Cons p ps)
  from Cons.prems obtain s a where "load_row E c p = Inr (s, a)"
    by force
  moreover have "load_rows E c (ps @ r # after) (shs @ [s]) (ars @ [a]) = Inl e"
    using Cons.prems by (intro Cons.IH) simp
  ultimately show ?case by simp
qed

lemma load_rows_some_failure:
  assumes "load_row E c r = Inl e" and "r \<in> set rows"
  shows "\<exists>e'. load_rows E c rows shs ars = Inl e'"
  using assms(2)
proof (induction rows arbitrary: shs ars)
  case Nil
  then show ?case by simp
next
  case (Cons p ps)
  show ?case
  proof (cases "load_row E c p")
    case (Inl e')
    then show ?thesis by simp
  next
    case (Inr v)
    with assms(1) Cons.prems have "r \<in> set ps" by auto
    from Cons.IH [OF this] Inr show ?thesis
      by (cases v) simp
  qed
qed

lemma load_geojson_as_list_VectorFile:
  "files E fn = Some (VectorFile c rows) \<Longrightarrow>
   load_geojson_as_list E fn =
     (case load_rows E c rows [] [] of Inl e \<Rightarrow> Inl e | Inr (shs, ars) \<Rightarrow> Inr (shs, ars, c))"
  by (simp add: load_geojson_as_list_def)

text \<open>
  The claim C5 as it is stated fails on a file whose Polygon without a ring comes before a Point: the load raises \<open>IndexError\<close>.
\<close>

theorem empty_polygon_before_point_counterexample:
  "files example_env ''/srv/web_tool/shapes/empty_then_point.geojson'' =
     Some (VectorFile epsg4326 [empty_polygon_row, point_row]) \<and>
   geometry point_row = Some point \<and> gtype point = ''Point'' \<and>
   load_geojson_as_list example_env ''/srv/web_tool/shapes/empty_then_point.geojson'' =
     Inl IndexError"
  by code_simp

text \<open>
  Claim C5, as the code has it. A boundary file with a feature that is neither a Polygon
  nor a MultiPolygon never loads: the loader raises and returns nothing. The exception is
  the \<open>ValueError\<close> of line 283 whenever every row before that feature is processed without
  an exception; an earlier row that raises aborts the load with its own exception, as the
  Polygon with no ring does in the example file, where the subscript of line 279 raises
  \<open>IndexError\<close> before the Point is reached.
\<close>

theorem unsupported_geometry_aborts_load:
  assumes "files E fn = Some (VectorFile c (before @ r # after))"
    and "geometry r = Some geom"
    and "gtype geom \<noteq> ''Polygon''" and "gtype geom \<noteq> ''MultiPolygon''"
  shows "(\<exists>e. load_geojson_as_list E fn = Inl e) \<and>
         ((\<forall>p\<in>set before. \<exists>v. load_row E c p = Inr v) \<longrightarrow>
            load_geojson_as_list E fn = Inl (ValueError ''Polygons and MultiPolygons only''))"
proof -
  have r: "load_row E c r = Inl (ValueError ''Polygons and MultiPolygons only'')"
    using assms(2-4) by (rule load_row_unsupported)
  have "\<exists>e. load_rows E c (before @ r # after) [] [] = Inl e"
    using r by (rule load_rows_some_failure) simp
  then have "\<exists>e. load_geojson_as_list E fn = Inl e"
    using assms(1) by (auto simp add: load_geojson_as_list_VectorFile)
  moreover have "load_geojson_as_list E fn = Inl (ValueError ''Polygons and MultiPolygons only'')"
    if "\<forall>p\<in>set before. \<exists>v. load_row E c p = Inr v"
    using load_rows_first_failure [OF r that] assms(1)
    by (simp add: load_geojson_as_list_VectorFile)
  ultimately show ?thesis by blast
qed

theorem unsupported_geometry_aborts_load_witness:
  "files example_env ''/srv/web_tool/shapes/polygon_then_point.geojson'' =
     Some (VectorFile epsg4326 ([polygon_row] @ point_row # [])) \<and>
   geometry point_row = Some point \<and>
   gtype point \<noteq> ''Polygon'' \<and> gtype point \<noteq> ''MultiPolygon'' \<and>
   load_row example_env epsg4326 polygon_row = Inr (polygon, 5 / 2) \<and>
   load_geojson_as_list example_env ''/srv/web_tool/shapes/polygon_then_point.geojson'' =
     Inl (ValueError ''Polygons and MultiPolygons only'')"
proof -
  have f: "files example_env ''/srv/web_tool/shapes/polygon_then_point.geojson'' =
     Some (VectorFile epsg4326 ([polygon_row] @ point_row # []))"
    by (simp add: example_env_def)
  have g: "geometry point_row = Some point"
    by (simp add: point_row_def)
  have t: "gtype point \<noteq> ''Polygon''" "gtype point \<noteq> ''MultiPolygon''"
    by (simp_all add: point_def)
  have p: "load_row example_env epsg4326 polygon_row = Inr (polygon, 5 / 2)"
    by code_simp
  have "\<exists>v. load_row example_env epsg4326 polygon_row = Inr v"
    unfolding p by (rule exI) (rule refl)
  then have "\<forall>p\<in>set [polygon_row]. \<exists>v. load_row example_env epsg4326 p = Inr v"
    by simp
  with unsupported_geometry_aborts_load [OF f g t] f g t p show ?thesis
    by blast
qed

section \<open>Claims about the client configuration string\<close>

text \<open>
  Claim C2. The options of the tile layer go through \<^verbatim>\<open>replace("True", "true")\<close> only, so
  \<^verbatim>\<open>False\<close> and \<^verbatim>\<open>None\<close> among them reach the client as Python writes them, while the
  shape layers go through \<^verbatim>\<open>replace("None", "null")\<close>. The string of a declaration
  whose options hold the three values:
\<close>

theorem kwargs_keeps_False_and_None:
  "out_kwargs (javascript_outputs false_and_none_args) =
     ''{'tms': False, 'bounds': None, 'detectRetina': true}'' \<and>
   get_javascript_string_from_dataset false_and_none_args =
     ''{\<newline>        \"location\": [[38, -88], 4, \"ESRI World Imagery\", \"ESRI World Imagery\"],\<newline>        \"tileObject\": L.tileLayer(\"tiles/{z}/{x}/{y}.png\", {'tms': False, 'bounds': None, 'detectRetina': true}),\<newline>        \"shapes\": null\<newline>    }''"
  by code_simp

text \<open>
  The claim C3 as it is stated fails on a declaration whose \<^verbatim>\<open>shape_layers\<close> is the empty list.
\<close>

theorem empty_shape_layers_counterexample:
  "shape_layers empty_layers = Some [] \<and>
   out_shapes (javascript_outputs empty_layers) = ''[]'' \<and>
   get_javascript_string_from_dataset empty_layers =
     ''{\<newline>        \"location\": [[38, -88], 4, \"ESRI World Imagery\", \"ESRI World Imagery\"],\<newline>        \"tileObject\": L.tileLayer(\"https://server.arcgisonline.com/ArcGIS/rest/services/World_Imagery/MapServer/tile/{z}/{y}/{x}\", {'minZoom': 4, 'maxZoom': 20, 'attribution': 'Tiles &copy; Esri'}),\<newline>        \"shapes\": []\<newline>    }''"
  by code_simp

text \<open>
  Claim C3, as the code has it. The test of line 307 is \<^verbatim>\<open>is not None\<close>: a declaration
  whose \<^verbatim>\<open>shape_layers\<close> is \<^verbatim>\<open>None\<close> gets the literal \<^verbatim>\<open>null\<close> as the last field of
  its string, and a declaration whose \<^verbatim>\<open>shape_layers\<close> is the empty list gets \<^verbatim>\<open>[]\<close>.
\<close>

theorem shapes_null_when_None:
  assumes "shape_layers dataset = None"
  shows "out_shapes (javascript_outputs dataset) = ''null'' \<and>
         (\<exists>before. get_javascript_string_from_dataset dataset =
            before @ ''\"shapes\": null\<newline>    }'')"
proof -
  have s: "out_shapes (javascript_outputs dataset) = ''null''"
    using assms by (simp add: javascript_outputs_def)
  have "get_javascript_string_from_dataset dataset =
      (''{\<newline>        \"location\": ['' @ str (out_center (javascript_outputs dataset)) @ '', '' @
       str (out_initialZoom (javascript_outputs dataset)) @
       '', \"'' @ out_name (javascript_outputs dataset) @ ''\", \"'' @
       out_imageMetadata (javascript_outputs dataset) @
       ''\"],\<newline>        \"tileObject\": L.tileLayer(\"'' @ out_url (javascript_outputs dataset) @
       ''\", '' @ out_kwargs (javascript_outputs dataset) @ ''),\<newline>        '') @
      ''\"shapes\": null\<newline>    }''"
    unfolding get_javascript_string_from_dataset_def format_outputs_def s by simp
  with s show ?thesis by blast
qed

theorem shapes_null_when_None_witness:
  "shape_layers esri_world_imagery = None \<and>
   out_shapes (javascript_outputs esri_world_imagery) = ''null'' \<and>
   get_javascript_string_from_dataset esri_world_imagery =
     ''{\<newline>        \"location\": [[38, -88], 4, \"ESRI World Imagery\", \"ESRI World Imagery\"],\<newline>        \"tileObject\": L.tileLayer(\"https://server.arcgisonline.com/ArcGIS/rest/services/World_Imagery/MapServer/tile/{z}/{y}/{x}\", {'minZoom': 4, 'maxZoom': 20, 'attribution': 'Tiles &copy; Esri'}),\<newline>        \"shapes\": null\<newline>    }''"
proof -
  have h: "shape_layers esri_world_imagery = None"
    by (simp add: esri_world_imagery_def)
  have j: "get_javascript_string_from_dataset esri_world_imagery =
     ''{\<newline>        \"location\": [[38, -88], 4, \"ESRI World Imagery\", \"ESRI World Imagery\"],\<newline>        \"tileObject\": L.tileLayer(\"https://server.arcgisonline.com/ArcGIS/rest/services/World_Imagery/MapServer/tile/{z}/{y}/{x}\", {'minZoom': 4, 'maxZoom': 20, 'attribution': 'Tiles &copy; Esri'}),\<newline>        \"shapes\": null\<newline>    }''"
    by code_simp
  from shapes_null_when_None [OF h] h j show ?thesis by simp
qed

section \<open>Facts about the registry loop\<close>

lemma loads_iff:
  "loads E fn \<longleftrightarrow>
     (\<exists>shs ars c init. load_geojson_as_list E fn = Inr (shs, ars, c) \<and> map_of c ''init'' = Some init)"
  by (auto simp add: loads_def split: sum.splits)

text \<open>The exceptions of the loader are not the one of line 358.\<close>

lemma subscript0_Inl: "subscript0 c = Inl e \<Longrightarrow> e = TypeError \<or> e = IndexError"
  by (cases c rule: subscript0.cases) auto

lemma unpack2_Inl:
  "unpack2 c = Inl e \<Longrightarrow> e \<noteq> ValueError ''DatasetType not recognized''"
  by (cases c rule: unpack2.cases) auto

lemma number_Inl: "number c = Inl e \<Longrightarrow> e = TypeError"
  by (cases c) auto

lemma first_vertex_Inl:
  "first_vertex geom = Inl e \<Longrightarrow> e \<noteq> ValueError ''DatasetType not recognized''"
  by (auto simp add: first_vertex_def and_then_Inl_iff split: if_splits
      dest: subscript0_Inl unpack2_Inl)

lemma load_row_Inl:
  "load_row E c r = Inl e \<Longrightarrow> e \<noteq> ValueError ''DatasetType not recognized''"
  by (auto simp add: load_row_def and_then_Inl_iff library_call_Inl_iff Let_def
      split: option.splits dest: first_vertex_Inl number_Inl)

lemma load_rows_Inl:
  "load_rows E c rows shs ars = Inl e \<Longrightarrow> e \<noteq> ValueError ''DatasetType not recognized''"
  by (induction rows arbitrary: shs ars) (auto split: sum.splits dest: load_row_Inl)

lemma load_geojson_as_list_Inl:
  "load_geojson_as_list E fn = Inl e \<Longrightarrow> e \<noteq> ValueError ''DatasetType not recognized''"
  by (auto simp add: load_geojson_as_list_def
      split: option.splits disk_file.splits sum.splits dest: load_rows_Inl)

lemma load_shape_layers_step_present:
  assumes "os_path_exists E (layer_file E l)"
    and "load_geojson_as_list E (layer_file E l) = Inr (shs, ars, c)"
    and "map_of c ''init'' = Some init"
  shows "load_shape_layers E k (l # ls) by_name loaded out =
     (case load_shape_layers E k ls
             (by_name(layer_name l \<mapsto> l\<lparr>geoms := Some shs, areas := Some ars, crs := Some init\<rparr>))
             loaded out of
        (err, rest', by_name', loaded', out') \<Rightarrow>
          (err, l\<lparr>geoms := Some shs, areas := Some ars, crs := Some init\<rparr> # rest',
           by_name', loaded', out'))"
  using assms by (simp add: layer_file_def Let_def split: prod.splits)

lemma load_shape_layers_step_absent:
  assumes "\<not> os_path_exists E (layer_file E l)"
  shows "load_shape_layers E k (l # ls) by_name loaded out =
     (case load_shape_layers E k ls by_name False (out @ [warning (layer_file E l) k]) of
        (err, rest', by_name', loaded', out') \<Rightarrow> (err, l # rest', by_name', loaded', out'))"
  using assms by (simp add: layer_file_def Let_def split: prod.splits)

lemma load_shape_layers_step_raises:
  assumes "os_path_exists E (layer_file E l)" and "\<not> loads E (layer_file E l)"
  shows "\<exists>e l'. load_shape_layers E k (l # ls) by_name loaded out =
           (Some e, l' # ls, by_name, loaded, out) \<and>
           e \<noteq> ValueError ''DatasetType not recognized''"
proof (cases "load_geojson_as_list E (layer_file E l)")
  case (Inl e)
  with assms(1) have "load_shape_layers E k (l # ls) by_name loaded out =
      (Some e, l # ls, by_name, loaded, out)"
    by (simp add: layer_file_def Let_def)
  moreover have "e \<noteq> ValueError ''DatasetType not recognized''"
    using Inl by (rule load_geojson_as_list_Inl)
  ultimately show ?thesis by blast
next
  case (Inr r)
  obtain shs ars c where r: "r = (shs, ars, c)" by (cases r)
  with Inr assms(2) have "map_of c ''init'' = None"
    by (simp add: loads_def)
  with Inr r assms(1) have "load_shape_layers E k (l # ls) by_name loaded out =
      (Some (KeyError ''init''), l\<lparr>geoms := Some shs, areas := Some ars\<rparr> # ls, by_name, loaded, out)"
    by (simp add: layer_file_def Let_def)
  then show ?thesis by blast
qed


lemma load_shape_layers_None:
  "load_shape_layers E k layers by_name loaded out = (None, layers', by_name', loaded', out') \<Longrightarrow>
   list_all2 (loaded_in_place E) layers layers' \<and>
   loaded' = (loaded \<and> (\<forall>l\<in>set layers. os_path_exists E (layer_file E l))) \<and>
   out' = out @ map (\<lambda>fn. warning fn k)
            (filter (\<lambda>fn. \<not> os_path_exists E fn) (map (layer_file E) layers))"
proof (induction layers arbitrary: by_name loaded out layers' by_name' loaded' out')
  case Nil
  then show ?case by simp
next
  case (Cons l ls)
  show ?case
  proof (cases "os_path_exists E (layer_file E l)")
    case False
    from Cons.prems obtain rest' where
      r: "load_shape_layers E k ls by_name False (out @ [warning (layer_file E l) k]) =
            (None, rest', by_name', loaded', out')"
      and l': "layers' = l # rest'"
      unfolding load_shape_layers_step_absent [OF False] by (auto split: prod.splits)
    from False have "loaded_in_place E l l"
      by (simp add: loaded_in_place_def)
    with Cons.IH [OF r] False l' show ?thesis by simp
  next
    case True
    show ?thesis
    proof (cases "loads E (layer_file E l)")
      case False
      from load_shape_layers_step_raises [OF True False] Cons.prems show ?thesis
        by (metis fst_conv option.distinct(1))
    next
      case loads: True
      then obtain shs ars c init where
        g: "load_geojson_as_list E (layer_file E l) = Inr (shs, ars, c)"
        and i: "map_of c ''init'' = Some init"
        by (auto simp add: loads_iff)
      from Cons.prems obtain rest' where
        r: "load_shape_layers E k ls
              (by_name(layer_name l \<mapsto> l\<lparr>geoms := Some shs, areas := Some ars, crs := Some init\<rparr>))
              loaded out = (None, rest', by_name', loaded', out')"
        and l': "layers' = l\<lparr>geoms := Some shs, areas := Some ars, crs := Some init\<rparr> # rest'"
        unfolding load_shape_layers_step_present [OF True g i] by (auto split: prod.splits)
      from True g i have
        "loaded_in_place E l (l\<lparr>geoms := Some shs, areas := Some ars, crs := Some init\<rparr>)"
        by (simp add: loaded_in_place_def)
      with Cons.IH [OF r] True l' show ?thesis by simp
    qed
  qed
qed

lemma load_shape_layers_ends:
  "\<forall>l\<in>set layers. os_path_exists E (layer_file E l) \<longrightarrow> loads E (layer_file E l) \<Longrightarrow>
   fst (load_shape_layers E k layers by_name loaded out) = None"
proof (induction layers arbitrary: by_name loaded out)
  case Nil
  then show ?case by simp
next
  case (Cons l ls)
  from Cons.prems have rest:
    "\<forall>l\<in>set ls. os_path_exists E (layer_file E l) \<longrightarrow> loads E (layer_file E l)"
    by simp
  show ?case
  proof (cases "os_path_exists E (layer_file E l)")
    case False
    from Cons.IH [OF rest] show ?thesis
      unfolding load_shape_layers_step_absent [OF False] by (auto split: prod.splits) (metis fst_conv)
  next
    case True
    with Cons.prems obtain shs ars c init where
      g: "load_geojson_as_list E (layer_file E l) = Inr (shs, ars, c)"
      and i: "map_of c ''init'' = Some init"
      by (auto simp add: loads_iff)
    from Cons.IH [OF rest] show ?thesis
      unfolding load_shape_layers_step_present [OF True g i] by (auto split: prod.splits) (metis fst_conv)
  qed
qed


lemma check_data_fn_eq:
  "check_data_fn E k d loaded out =
     (loaded \<and> (\<forall>f. data_fn d = Some f \<longrightarrow> os_path_exists E (os_path_join (ROOT_DIR E) f)),
      out @ map (\<lambda>fn. warning fn k)
        (filter (\<lambda>fn. \<not> os_path_exists E fn)
           (case data_fn d of None \<Rightarrow> [] | Some f \<Rightarrow> [os_path_join (ROOT_DIR E) f])))"
  by (simp add: check_data_fn_def Let_def split: option.splits)

lemma missing_files_Nil_iff:
  "missing_files E d = [] \<longleftrightarrow>
     (\<forall>layers. shape_layers d = Some layers \<longrightarrow>
        (\<forall>l\<in>set layers. os_path_exists E (layer_file E l))) \<and>
     (\<forall>f. data_fn d = Some f \<longrightarrow> os_path_exists E (os_path_join (ROOT_DIR E) f))"
  by (cases "shape_layers d"; cases "data_fn d")
    (auto simp add: missing_files_def referenced_files_def filter_empty_conv)


lemma missing_files_eq:
  "missing_files E d =
     filter (\<lambda>fn. \<not> os_path_exists E fn)
       (case shape_layers d of None \<Rightarrow> [] | Some layers \<Rightarrow> map (layer_file E) layers) @
     filter (\<lambda>fn. \<not> os_path_exists E fn)
       (case data_fn d of None \<Rightarrow> [] | Some f \<Rightarrow> [os_path_join (ROOT_DIR E) f])"
  by (simp add: missing_files_def referenced_files_def)


lemma load_shapes_first_None:
  assumes "load_shapes_first E k d out = (None, layers', by_name, loaded, out')"
  shows "out' = out @ map (\<lambda>fn. warning fn k)
           (filter (\<lambda>fn. \<not> os_path_exists E fn)
              (case shape_layers d of None \<Rightarrow> [] | Some layers \<Rightarrow> map (layer_file E) layers)) \<and>
         loaded = (\<forall>layers. shape_layers d = Some layers \<longrightarrow>
                     (\<forall>l\<in>set layers. os_path_exists E (layer_file E l))) \<and>
         (shape_layers d = None \<longrightarrow> layers' = None) \<and>
         (\<forall>layers. shape_layers d = Some layers \<longrightarrow>
            (\<exists>ls'. layers' = Some ls' \<and> list_all2 (loaded_in_place E) layers ls'))"
proof (cases "shape_layers d")
  case None
  with assms show ?thesis by (auto simp add: load_shapes_first_def)
next
  case (Some layers)
  with assms obtain ls' where
    l: "load_shape_layers E k layers Map.empty True out = (None, ls', by_name, loaded, out')"
    and ls': "layers' = Some ls'"
    by (auto simp add: load_shapes_first_def split: prod.splits)
  from load_shape_layers_None [OF l] Some ls' show ?thesis by simp
qed

lemma load_shapes_first_ends:
  assumes "present_layers_load E d"
  shows "fst (load_shapes_first E k d out) = None"
proof (cases "shape_layers d")
  case None
  then show ?thesis by (simp add: load_shapes_first_def)
next
  case (Some layers)
  with assms have "\<forall>l\<in>set layers. os_path_exists E (layer_file E l) \<longrightarrow> loads E (layer_file E l)"
    by (simp add: present_layers_load_def list_all_iff)
  from load_shape_layers_ends [OF this, of k Map.empty True out] Some show ?thesis
    by (auto simp add: load_shapes_first_def split: prod.splits)
qed


text \<open>The loop body: an exception among the shape layers, a missing file, no missing file.\<close>

lemma load_dataset_abort:
  assumes "load_shapes_first E k d (printed st) = (Some e, layers', by_name, loaded, out)"
  shows "load_dataset E k d st = (Some e, d\<lparr>shape_layers := layers'\<rparr>, st\<lparr>printed := out\<rparr>)"
  by (simp add: load_dataset_def assms)

lemma load_dataset_missing:
  assumes "load_shapes_first E k d (printed st) = (None, layers', by_name, loaded, out)"
    and "missing_files E d \<noteq> []"
  shows "load_dataset E k d st =
     (None, d\<lparr>shape_layers := layers'\<rparr>,
      st\<lparr>printed := printed st @ map (\<lambda>fn. warning fn k) (missing_files E d)\<rparr>)"
proof -
  note r = load_shapes_first_None [OF assms(1)]
  from assms(2) have
    "\<not> (loaded \<and> (\<forall>f. data_fn d = Some f \<longrightarrow> os_path_exists E (os_path_join (ROOT_DIR E) f)))"
    using r by (auto simp add: missing_files_Nil_iff)
  then show ?thesis
    using r by (cases "data_fn d")
      (auto simp add: load_dataset_def assms(1) check_data_fn_eq missing_files_eq Let_def)
qed

lemma load_dataset_present:
  assumes "load_shapes_first E k d (printed st) = (None, layers', by_name, loaded, out)"
    and "missing_files E d = []"
  shows "load_dataset E k d st =
     (case make_data_loader (d\<lparr>shape_layers := layers'\<rparr>) by_name of
        Inl e \<Rightarrow> (Some e, d\<lparr>shape_layers := layers'\<rparr>, st)
      | Inr loader \<Rightarrow>
          (None, d\<lparr>shape_layers := layers'\<rparr>,
           st\<lparr>DATASETS := (DATASETS st)(k \<mapsto>
                 \<lparr>data_loader = loader, entry_shape_layers = by_name,
                  javascript_string =
                    get_javascript_string_from_dataset (d\<lparr>shape_layers := layers'\<rparr>)\<rparr>)\<rparr>))"
proof -
  note r = load_shapes_first_None [OF assms(1)]
  from assms(2) have
    "loaded \<and> (\<forall>f. data_fn d = Some f \<longrightarrow> os_path_exists E (os_path_join (ROOT_DIR E) f))"
    using r by (auto simp add: missing_files_Nil_iff)
  moreover from assms(2) have "out = printed st"
    using r by (simp add: missing_files_eq)
  ultimately show ?thesis
    by (cases "data_fn d")
      (auto simp add: load_dataset_def assms(1) check_data_fn_eq Let_def split: sum.splits)
qed


lemma load_shapes_first_cases:
  obtains (raised) e layers' by_name loaded out'
      where "load_shapes_first E k d out = (Some e, layers', by_name, loaded, out')"
    | (ended) layers' by_name loaded out'
      where "load_shapes_first E k d out = (None, layers', by_name, loaded, out')"
proof (cases "load_shapes_first E k d out")
  case (fields err layers' by_name loaded out')
  then show ?thesis
    by (cases err) (auto intro: raised ended)
qed

lemma load_dataset_registry:
  assumes "load_dataset E k d st = (err, d', st')"
  shows "(\<forall>k'. k' \<noteq> k \<longrightarrow> DATASETS st' k' = DATASETS st k') \<and>
         (missing_files E d \<noteq> [] \<longrightarrow> DATASETS st' = DATASETS st) \<and>
         (err \<noteq> None \<longrightarrow> DATASETS st' = DATASETS st)"
proof (cases rule: load_shapes_first_cases [of E k d "printed st"])
  case (raised e layers' by_name loaded out')
  from load_dataset_abort [OF raised] assms show ?thesis by auto
next
  case (ended layers' by_name loaded out')
  show ?thesis
  proof (cases "missing_files E d = []")
    case True
    from load_dataset_present [OF ended True] assms True show ?thesis
      by (auto split: sum.splits)
  next
    case False
    from load_dataset_missing [OF ended False] assms show ?thesis by auto
  qed
qed


text \<open>When the boundary files on disk load, the shape layers never raise.\<close>

lemma load_dataset_layers_load:
  assumes "present_layers_load E d" and "load_dataset E k d st = (err, d', st')"
  shows "printed st' = printed st @ map (\<lambda>fn. warning fn k) (missing_files E d) \<and>
         (missing_files E d \<noteq> [] \<longrightarrow> err = None) \<and>
         (\<forall>layers. shape_layers d = Some layers \<longrightarrow>
            (\<exists>ls'. shape_layers d' = Some ls' \<and> list_all2 (loaded_in_place E) layers ls'))"
proof (cases rule: load_shapes_first_cases [of E k d "printed st"])
  case (raised e layers' by_name loaded out')
  with load_shapes_first_ends [OF assms(1), of k "printed st"] show ?thesis by simp
next
  case (ended layers' by_name loaded out')
  note r = load_shapes_first_None [OF ended]
  show ?thesis
  proof (cases "missing_files E d = []")
    case True
    from load_dataset_present [OF ended True] assms(2) r True show ?thesis
      by (auto split: sum.splits)
  next
    case False
    from load_dataset_missing [OF ended False] assms(2) r False show ?thesis by auto
  qed
qed



text \<open>The loop over the declarations.\<close>

lemma load_datasets_step:
  "load_datasets E ((k, d) # rest) st =
     (case load_dataset E k d st of
        (Some e, d', st') \<Rightarrow> (Some e, (k, d') # rest, st')
      | (None, d', st') \<Rightarrow>
          (case load_datasets E rest st' of
             (err, rest', st'') \<Rightarrow> (err, (k, d') # rest', st'')))"
  by simp





section \<open>Claims about the registry\<close>







text \<open>
  The claim C9 as it is stated fails when a boundary file that is on disk does not load: the layer after it has its file on disk and is left as declared.
\<close>

theorem unloadable_layer_stops_loading_counterexample:
  "shape_layers broken_then_states = Some
     [declared_layer ''Broken'' ''shapes/polygon_then_point.geojson'' None,
      declared_layer ''States'' ''shapes/yangon_sentinel_admin_1_clipped.geojson'' (Some ''ST'')] \<and>
   os_path_exists example_env
     (layer_file example_env
        (declared_layer ''States'' ''shapes/yangon_sentinel_admin_1_clipped.geojson'' (Some ''ST''))) \<and>
   fst (load_dataset example_env ''broken_then_states'' broken_then_states empty_registry) =
     Some (ValueError ''Polygons and MultiPolygons only'') \<and>
   shape_layers (fst (snd
     (load_dataset example_env ''broken_then_states'' broken_then_states empty_registry))) = Some
     [declared_layer ''Broken'' ''shapes/polygon_then_point.geojson'' None,
      declared_layer ''States'' ''shapes/yangon_sentinel_admin_1_clipped.geojson'' (Some ''ST'')] \<and>
   geoms (declared_layer ''States'' ''shapes/yangon_sentinel_admin_1_clipped.geojson'' (Some ''ST'')) =
     None"
  by code_simp

text \<open>
  Claim C9, as the code has it. For a declaration whose boundary files on disk all load,
  the body of the loop leaves as many shape layers as were declared, and each of them is
  \<open>loaded_in_place\<close>: with its boundary file on disk it is the declared layer with
  \<^verbatim>\<open>geoms\<close>, \<^verbatim>\<open>areas\<close> and \<^verbatim>\<open>crs\<close> set from what the loader returned, and without it the
  declared layer. That holds however the body ends, and with a file missing too: then the
  body ends without an exception and without an entry in \<open>DATASETS\<close>, the layers changed
  all the same. A boundary file that is on disk and does not load ends the loop where it
  stands: in the example the layer after it has its file on disk and is left as declared.
\<close>

theorem shape_layers_loaded_in_place:
  assumes "shape_layers d = Some layers" and "present_layers_load E d"
    and "load_dataset E k d st = (err, d', st')"
  shows "(\<exists>ls'. shape_layers d' = Some ls' \<and> length ls' = length layers \<and>
            (\<forall>i<length layers. loaded_in_place E (layers ! i) (ls' ! i))) \<and>
         (missing_files E d \<noteq> [] \<longrightarrow> err = None \<and> DATASETS st' = DATASETS st)"
  using load_dataset_layers_load [OF assms(2,3)] load_dataset_registry [OF assms(3)] assms(1)
  by (auto simp add: list_all2_conv_all_nth)

theorem shape_layers_loaded_in_place_witness:
  "shape_layers yangon_sentinel = Some
     [declared_layer ''States'' ''shapes/yangon_sentinel_admin_1_clipped.geojson'' (Some ''ST''),
      declared_layer ''Districts'' ''shapes/yangon_sentinel_admin_2_clipped.geojson'' (Some ''DT''),
      declared_layer ''Townships'' ''shapes/yangon_sentinel_admin_3_clipped.geojson'' (Some ''TS''),
      declared_layer ''Wards'' ''shapes/yangon_sentinel_admin_4_clipped.geojson'' (Some ''Ward'')] \<and>
   present_layers_load example_env yangon_sentinel \<and>
   missing_files example_env yangon_sentinel \<noteq> [] \<and>
   (\<exists>d' st' ls'.
      load_dataset example_env ''yangon_sentinel'' yangon_sentinel empty_registry =
        (None, d', st') \<and>
      DATASETS st' ''yangon_sentinel'' = None \<and>
      shape_layers d' = Some ls' \<and> length ls' = 4 \<and>
      ls' ! 0 =
        (declared_layer ''States'' ''shapes/yangon_sentinel_admin_1_clipped.geojson'' (Some ''ST''))
          \<lparr>geoms := Some [polygon, multipolygon], areas := Some [5 / 2, 5 / 2],
           crs := Some (PyStr ''epsg:4326'')\<rparr> \<and>
      ls' ! 2 =
        declared_layer ''Townships'' ''shapes/yangon_sentinel_admin_3_clipped.geojson'' (Some ''TS''))"
proof -
  let ?states = "declared_layer ''States'' ''shapes/yangon_sentinel_admin_1_clipped.geojson'' (Some ''ST'')"
  let ?townships = "declared_layer ''Townships'' ''shapes/yangon_sentinel_admin_3_clipped.geojson'' (Some ''TS'')"
  let ?layers = "[?states,
      declared_layer ''Districts'' ''shapes/yangon_sentinel_admin_2_clipped.geojson'' (Some ''DT''),
      ?townships,
      declared_layer ''Wards'' ''shapes/yangon_sentinel_admin_4_clipped.geojson'' (Some ''Ward'')]"
  have l: "shape_layers yangon_sentinel = Some ?layers"
    by (simp add: yangon_sentinel_def)
  have m: "missing_files example_env yangon_sentinel \<noteq> []"
    by code_simp
  have p: "present_layers_load example_env yangon_sentinel"
    by code_simp
  have e0: "os_path_exists example_env (layer_file example_env ?states)"
    by code_simp
  have g0: "load_geojson_as_list example_env (layer_file example_env ?states) =
      Inr ([polygon, multipolygon], [5 / 2, 5 / 2], epsg4326)"
    by code_simp
  have e2: "\<not> os_path_exists example_env (layer_file example_env ?townships)"
    by code_simp
  obtain err d' st' where
    r: "load_dataset example_env ''yangon_sentinel'' yangon_sentinel empty_registry = (err, d', st')"
    by (cases "load_dataset example_env ''yangon_sentinel'' yangon_sentinel empty_registry")
  from shape_layers_loaded_in_place [OF l p r] m obtain ls' where
    ls': "shape_layers d' = Some ls'"
    and len: "length ls' = length ?layers"
    and each: "\<And>i. i < length ?layers \<Longrightarrow> loaded_in_place example_env (?layers ! i) (ls' ! i)"
    and err: "err = None"
    and reg: "DATASETS st' = DATASETS empty_registry"
    by blast
  from each [of 0] each [of 2] have "loaded_in_place example_env ?states (ls' ! 0)"
    and "loaded_in_place example_env ?townships (ls' ! 2)"
    by simp_all
  then have "ls' ! 0 = ?states\<lparr>geoms := Some [polygon, multipolygon], areas := Some [5 / 2, 5 / 2],
        crs := Some (PyStr ''epsg:4326'')\<rparr>"
    and "ls' ! 2 = ?townships"
    using e0 g0 e2 by (simp_all add: loaded_in_place_def epsg4326_def)
  moreover from reg have "DATASETS st' ''yangon_sentinel'' = None"
    by (simp add: empty_registry_def)
  moreover from len have "length ls' = 4" by simp
  ultimately show ?thesis
    using l m p r err ls' by blast
qed







end
